theory Spec2Isabelle
  imports
    Complex_Main
    "HOL-Library.Char_ord"
    "HOL-Library.List_Lexorder"
    "HOL-Library.Finite_Map"
begin

section \<open>Python values, exceptions and results\<close>

text \<open>
  The exceptions raised by \<^verbatim>\<open>atooms/trajectory/base.py\<close> and
  \<^verbatim>\<open>atooms/trajectory/decorators.py\<close>, and by the layers they call.
\<close>

datatype error =
    IOError
  | IndexError
  | TypeError
  | ValueError
  | NotImplementedError
  | AttributeError

text \<open>
  A method of an object with mutable attributes is a function from the object's state to
  its outcome and the state it leaves behind. The state is returned in both cases: what
  a method assigned before it raised stays assigned.
\<close>

type_synonym ('a, 's) outcome = "(error + 'a) \<times> 's"

text \<open>
  The Python objects that are compared with \<^verbatim>\<open>==\<close> by the code: a function object is
  equal to itself only (\<open>PyFunc\<close> carries its identity), and is never equal to a list,
  a tuple or a dictionary. Lists and tuples compare element by element, dictionaries as
  finite maps.
\<close>

datatype pyval =
    PyNone
  | PyInt int
  | PyStr string
  | PyFunc string
  | PyTuple "pyval list"
  | PyList "pyval list"
  | PyDict "(string, pyval) fmap"

text \<open>\<^verbatim>\<open>x in xs\<close> for a Python list: some element is equal to \<open>x\<close>.\<close>

definition py_in :: "'a \<Rightarrow> 'a list \<Rightarrow> bool" where
  "py_in x xs = (x \<in> set xs)"

section \<open>TrajectoryBase\<close>

text \<open>
  The attributes set by \<^verbatim>\<open>TrajectoryBase.__init__\<close> that the methods below read or
  assign (the caches of the properties \<^verbatim>\<open>timestep\<close>, \<^verbatim>\<open>block_size\<close> and
  \<^verbatim>\<open>grandcanonical\<close> are left out). The field \<open>backend\<close> is the state of the concrete
  subclass (open files, caches), of a type the subclass chooses.
\<close>

record 'b trajectory =
  filename :: string
  mode :: string
  callbacks :: "pyval list"
  fmt :: "string list"
  precision :: int
  steps :: "int list"
  initialized_write :: bool
  initialized_read :: bool
  backend :: 'b

text \<open>
  The methods a subclass implements, acting on the subclass state, and the call of a
  callback object \<^verbatim>\<open>cbk(s, *args, **kwargs)\<close>. The step index \<open>steps\<close> is kept by the
  template methods below.
\<close>

record ('b, 'sys) hooks =
  read_init :: "'b \<Rightarrow> (unit, 'b) outcome"
  read_sample :: "'b \<Rightarrow> int \<Rightarrow> ('sys, 'b) outcome"
  write_init :: "'b \<Rightarrow> 'sys \<Rightarrow> (unit, 'b) outcome"
  write_sample :: "'b \<Rightarrow> 'sys \<Rightarrow> int \<Rightarrow> (unit, 'b) outcome"
  call :: "pyval \<Rightarrow> 'sys \<Rightarrow> pyval list \<Rightarrow> (string, pyval) fmap \<Rightarrow> error + 'sys"

text \<open>The methods of \<^verbatim>\<open>TrajectoryBase\<close> itself: the two abstract ones raise.\<close>

definition base_hooks ::
  "(pyval \<Rightarrow> 'sys \<Rightarrow> pyval list \<Rightarrow> (string, pyval) fmap \<Rightarrow> error + 'sys) \<Rightarrow> ('b, 'sys) hooks" where
  "base_hooks c =
     \<lparr> read_init = (\<lambda>b. (Inr (), b)),
       read_sample = (\<lambda>b index. (Inl NotImplementedError, b)),
       write_init = (\<lambda>b system. (Inr (), b)),
       write_sample = (\<lambda>b system step. (Inl NotImplementedError, b)),
       call = c \<rparr>"

text \<open>\<^verbatim>\<open>__init__(self, filename, mode)\<close>; \<open>path_exists\<close> is \<^verbatim>\<open>os.path.exists\<close>.\<close>

definition TrajectoryBase_init ::
  "(string \<Rightarrow> bool) \<Rightarrow> string \<Rightarrow> string \<Rightarrow> 'b \<Rightarrow> error + 'b trajectory" where
  "TrajectoryBase_init path_exists fname md b =
     (if md = ''r'' \<and> \<not> path_exists fname then Inl IOError
      else Inr \<lparr> filename = fname, mode = md, callbacks = [], fmt = [], precision = 6,
                 steps = [], initialized_write = False, initialized_read = False,
                 backend = b \<rparr>)"

text \<open>\<^verbatim>\<open>__len__\<close>\<close>

definition len :: "'b trajectory \<Rightarrow> int" where
  "len t = int (length (steps t))"

text \<open>
  The loop of \<^verbatim>\<open>read\<close> over the callbacks. Each entry is unpacked into
  \<^verbatim>\<open>cbk, args, kwargs\<close>; an entry of another shape cannot be unpacked.
\<close>

fun apply_callbacks ::
  "(pyval \<Rightarrow> 'sys \<Rightarrow> pyval list \<Rightarrow> (string, pyval) fmap \<Rightarrow> error + 'sys) \<Rightarrow>
   pyval list \<Rightarrow> 'sys \<Rightarrow> error + 'sys" where
  "apply_callbacks c [] s = Inr s"
| "apply_callbacks c (PyList [cbk, PyTuple args, PyDict kwargs] # es) s =
     (case c cbk s args kwargs of Inl e \<Rightarrow> Inl e | Inr s' \<Rightarrow> apply_callbacks c es s')"
| "apply_callbacks c (PyList xs # es) s = Inl ValueError"
| "apply_callbacks c (e # es) s = Inl TypeError"

text \<open>\<^verbatim>\<open>read(self, index)\<close>\<close>

definition TrajectoryBase_read :: "('b, 'sys) hooks \<Rightarrow> 'b trajectory \<Rightarrow> int \<Rightarrow> ('sys, 'b trajectory) outcome" where
  "TrajectoryBase_read h t index =
     (let (r0, t0) =
            (if \<not> initialized_read t then
               (case read_init h (backend t) of
                  (Inl e, b) \<Rightarrow> (Inl e, t\<lparr>backend := b\<rparr>)
                | (Inr u, b) \<Rightarrow> (Inr (), t\<lparr>backend := b, initialized_read := True\<rparr>))
             else (Inr (), t))
      in case r0 of
           Inl e \<Rightarrow> (Inl e, t0)
         | Inr u \<Rightarrow>
             (case read_sample h (backend t0) index of
                (Inl e, b) \<Rightarrow> (Inl e, t0\<lparr>backend := b\<rparr>)
              | (Inr s, b) \<Rightarrow> (apply_callbacks (call h) (callbacks t0) s, t0\<lparr>backend := b\<rparr>)))"

text \<open>\<^verbatim>\<open>write(self, system, step)\<close>\<close>

definition TrajectoryBase_write ::
  "('b, 'sys) hooks \<Rightarrow> 'b trajectory \<Rightarrow> 'sys \<Rightarrow> int \<Rightarrow> (unit, 'b trajectory) outcome" where
  "TrajectoryBase_write h t system step =
     (if mode t = ''r'' then (Inl IOError, t)
      else
        let (r0, t0) =
              (if \<not> initialized_write t then
                 (case write_init h (backend t) system of
                    (Inl e, b) \<Rightarrow> (Inl e, t\<lparr>backend := b\<rparr>)
                  | (Inr u, b) \<Rightarrow> (Inr (), t\<lparr>backend := b, initialized_write := True\<rparr>))
               else (Inr (), t))
        in case r0 of
             Inl e \<Rightarrow> (Inl e, t0)
           | Inr u \<Rightarrow>
               (case write_sample h (backend t0) system step of
                  (Inl e, b) \<Rightarrow> (Inl e, t0\<lparr>backend := b\<rparr>)
                | (Inr u', b) \<Rightarrow>
                    (Inr (),
                     if \<not> py_in step (steps t0)
                     then t0\<lparr>backend := b, steps := steps t0 @ [step]\<rparr>
                     else t0\<lparr>backend := b\<rparr>)))"


text \<open>\<^verbatim>\<open>register_callback(self, cbk, *args, **kwargs)\<close>\<close>

definition register_callback ::
  "'b trajectory \<Rightarrow> pyval \<Rightarrow> pyval list \<Rightarrow> (string, pyval) fmap \<Rightarrow> 'b trajectory" where
  "register_callback t cbk args kwargs =
     (if \<not> py_in cbk (callbacks t)
      then t\<lparr>callbacks := callbacks t @ [PyList [cbk, PyTuple args, PyDict kwargs]]\<rparr>
      else t)"

subsection \<open>Indexed access\<close>

text \<open>
  The key of \<^verbatim>\<open>traj[key]\<close>: a slice \<^verbatim>\<open>start:stop:step\<close> (each part may be absent),
  an \<^verbatim>\<open>int\<close>, or an object of any other type.
\<close>

datatype key =
    KeySlice "int option" "int option" "int option"
  | KeyInt int
  | KeyOther pyval

text \<open>What \<^verbatim>\<open>__getitem__\<close> returns: a list of frames for a slice, one frame otherwise.\<close>

datatype 'sys item = Frames "'sys list" | Frame 'sys

text \<open>
  A returned value \<open>x\<close> of a delegated call is passed on as \<open>C x\<close>, an error and the state
  as they are: \<open>map_prod (map_sum id C) id\<close>.
\<close>

text \<open>
  Python's slicing of a list of length \<open>n\<close>: the positions selected by
  \<^verbatim>\<open>start:stop:step\<close>, in order. A zero step raises.
\<close>

definition slice_positions :: "int option \<Rightarrow> int option \<Rightarrow> int option \<Rightarrow> int \<Rightarrow> error + int list" where
  "slice_positions start stop stp n =
     (let st = (case stp of None \<Rightarrow> 1 | Some k \<Rightarrow> k) in
      if st = 0 then Inl ValueError
      else
        let lower = (if st < 0 then - 1 else 0);
            upper = (if st < 0 then n - 1 else n);
            clip = (\<lambda>i. if i < 0 then max (i + n) lower else min i upper);
            a = (case start of None \<Rightarrow> (if st < 0 then upper else lower) | Some i \<Rightarrow> clip i);
            b = (case stop of None \<Rightarrow> (if st < 0 then lower else upper) | Some i \<Rightarrow> clip i);
            cnt = (if st > 0 then (if a < b then (b - a - 1) div st + 1 else 0)
                   else (if b < a then (a - b - 1) div (- st) + 1 else 0))
        in Inr (map (\<lambda>i. a + int i * st) [0..<nat cnt]))"

text \<open>The list comprehension \<^verbatim>\<open>[self.read(i) for i in ...]\<close>: it stops where a read raises.\<close>

fun read_all ::
  "('b, 'sys) hooks \<Rightarrow> 'b trajectory \<Rightarrow> int list \<Rightarrow> ('sys list, 'b trajectory) outcome" where
  "read_all h t [] = (Inr [], t)"
| "read_all h t (i # is) =
     (case TrajectoryBase_read h t i of
        (Inl e, t') \<Rightarrow> (Inl e, t')
      | (Inr s, t') \<Rightarrow>
          (case read_all h t' is of
             (Inl e, t'') \<Rightarrow> (Inl e, t'')
           | (Inr ss, t'') \<Rightarrow> (Inr (s # ss), t'')))"

text \<open>\<^verbatim>\<open>__getitem__(self, key)\<close>\<close>

fun getitem ::
  "('b, 'sys) hooks \<Rightarrow> 'b trajectory \<Rightarrow> key \<Rightarrow> ('sys item, 'b trajectory) outcome" where
  "getitem h t (KeySlice start stop stp) =
     (let frames = map int [0..<length (steps t)] in
      case slice_positions start stop stp (int (length frames)) of
        Inl e \<Rightarrow> (Inl e, t)
      | Inr ps \<Rightarrow>
          map_prod (map_sum id Frames) id (read_all h t (map (\<lambda>p. frames ! nat p) ps)))"
| "getitem h t (KeyInt k) =
     (let k1 = (if k < 0 then k + len t else k) in
      if k1 \<ge> len t then (Inl IndexError, t)
      else map_prod (map_sum id Frame) id (TrajectoryBase_read h t k1))"
| "getitem h t (KeyOther v) = (Inl TypeError, t)"

section \<open>Frames\<close>

text \<open>
  What the trajectory layer uses of a frame: the particles with their positions, and the
  cell with its side. The type \<open>'f\<close> is the type of the numbers in a position or in a
  side, the elements of a \<^verbatim>\<open>numpy\<close> array. A frame is a value: the frame as it is when
  the call that produced it returns.
\<close>

record 'f particle =
  position :: "'f list"
  species :: int
  mass :: 'f

record 'f cell =
  side :: "'f list"
  origin :: "'f list"

record 'f system =
  particle :: "'f particle list"
  cell :: "'f cell"

text \<open>
  The subtraction of two arrays in the \<^verbatim>\<open>Centered\<close> decorator, over the reals: an
  operation on two arrays of different lengths raises, as \<^verbatim>\<open>numpy\<close> does for shapes it
  cannot combine.
\<close>

definition np_sub :: "real list \<Rightarrow> real list \<Rightarrow> error + real list" where
  "np_sub a b = (if length a = length b then Inr (map2 (-) a b) else Inl ValueError)"

text \<open>
  \<^verbatim>\<open>numpy.rint\<close> on a real number: the nearest integer, the even one of the two when
  halfway.
\<close>

definition rint :: "real \<Rightarrow> real" where
  "rint x =
     (let f = \<lfloor>x\<rfloor>; r = x - of_int f in
      if r < 1 / 2 then of_int f
      else if 1 / 2 < r then of_int (f + 1)
      else if even f then of_int f else of_int (f + 1))"

text \<open>
  The arithmetic on the elements of \<^verbatim>\<open>float64\<close> arrays that the \<^verbatim>\<open>Unfolded\<close> decorator
  uses: what \<^verbatim>\<open>-\<close>, \<^verbatim>\<open>+\<close>, \<^verbatim>\<open>*\<close>, \<^verbatim>\<open>/\<close> and \<^verbatim>\<open>numpy.rint\<close> return on two numbers
  (on one, for the last), rounded results, infinities and \<^verbatim>\<open>nan\<close> included. The
  operations are not fixed: what is proved from them holds for the arithmetic of the
  machine.
\<close>

record 'f float_ops =
  f_sub :: "'f \<Rightarrow> 'f \<Rightarrow> 'f"
  f_add :: "'f \<Rightarrow> 'f \<Rightarrow> 'f"
  f_mul :: "'f \<Rightarrow> 'f \<Rightarrow> 'f"
  f_div :: "'f \<Rightarrow> 'f \<Rightarrow> 'f"
  f_rint :: "'f \<Rightarrow> 'f"

section \<open>The Centered decorator\<close>

text \<open>
  The state of a \<^verbatim>\<open>Centered\<close> object: its list \<^verbatim>\<open>__done\<close> and the state of the
  wrapped component.
\<close>

record 'b centered =
  centered_done :: "int list"
  centered_component :: 'b

definition Centered_init :: "'b \<Rightarrow> 'b centered" where
  "Centered_init b = \<lparr> centered_done = [], centered_component = b \<rparr>"

text \<open>The loop \<^verbatim>\<open>for p in s.particle: p.position -= s.cell.side / 2.0\<close>\<close>

fun center_particles :: "real list \<Rightarrow> real particle list \<Rightarrow> error + real particle list" where
  "center_particles sd [] = Inr []"
| "center_particles sd (p # ps) =
     (case np_sub (position p) (map (\<lambda>x. x / 2) sd) of
        Inl e \<Rightarrow> Inl e
      | Inr x \<Rightarrow>
          (case center_particles sd ps of
             Inl e \<Rightarrow> Inl e
           | Inr ps' \<Rightarrow> Inr (p\<lparr>position := x\<rparr> # ps')))"

text \<open>
  \<^verbatim>\<open>Centered.read_sample(self, sample)\<close>; \<open>inner\<close> is the \<^verbatim>\<open>read_sample\<close> of the wrapped
  class. The bare \<^verbatim>\<open>return\<close> gives \<open>None\<close>.
\<close>

definition Centered_read_sample ::
  "('b \<Rightarrow> int \<Rightarrow> (real system, 'b) outcome) \<Rightarrow> 'b centered \<Rightarrow> int \<Rightarrow>
   (real system option, 'b centered) outcome" where
  "Centered_read_sample inner c sample =
     (if py_in sample (centered_done c) then (Inr None, c)
      else
        let c1 = c\<lparr>centered_done := centered_done c @ [sample]\<rparr> in
        case inner (centered_component c1) sample of
          (Inl e, b) \<Rightarrow> (Inl e, c1\<lparr>centered_component := b\<rparr>)
        | (Inr s, b) \<Rightarrow>
            (case center_particles (side (cell s)) (particle s) of
               Inl e \<Rightarrow> (Inl e, c1\<lparr>centered_component := b\<rparr>)
             | Inr ps \<Rightarrow> (Inr (Some (s\<lparr>particle := ps\<rparr>)), c1\<lparr>centered_component := b\<rparr>)))"

text \<open>Several \<^verbatim>\<open>read_sample\<close> calls in a row, whatever each one returns or raises.\<close>

fun Centered_read_samples ::
  "('b \<Rightarrow> int \<Rightarrow> (real system, 'b) outcome) \<Rightarrow> 'b centered \<Rightarrow> int list \<Rightarrow> 'b centered" where
  "Centered_read_samples inner c [] = c"
| "Centered_read_samples inner c (k # ks) =
     Centered_read_samples inner (snd (Centered_read_sample inner c k)) ks"

section \<open>SuperTrajectory\<close>








section \<open>The Unfolded decorator\<close>

text \<open>
  The state of an \<^verbatim>\<open>Unfolded\<close> object: the attributes \<^verbatim>\<open>_old\<close> and \<^verbatim>\<open>_last_read\<close>, which
  exist once \<^verbatim>\<open>read_init\<close> has assigned them, and the state of the wrapped component.
\<close>

record ('f, 'b) unfolded =
  old :: "'f list list option"
  last_read :: "int option"
  component :: 'b

definition Unfolded_init :: "'b \<Rightarrow> ('f, 'b) unfolded" where
  "Unfolded_init b = \<lparr> old = None, last_read = None, component = b \<rparr>"

text \<open>\<^verbatim>\<open>Unfolded.read_init(self)\<close>\<close>

definition Unfolded_read_init ::
  "('b, 'f system) hooks \<Rightarrow> ('f, 'b) unfolded \<Rightarrow> (unit, ('f, 'b) unfolded) outcome" where
  "Unfolded_read_init ih u =
     (case read_init ih (component u) of
        (Inl e, b) \<Rightarrow> (Inl e, u\<lparr>component := b\<rparr>)
      | (Inr x, b) \<Rightarrow>
          (case read_sample ih b 0 of
             (Inl e, b') \<Rightarrow> (Inl e, u\<lparr>component := b'\<rparr>)
           | (Inr s, b') \<Rightarrow>
               (Inr (), u\<lparr>component := b', old := Some (map position (particle s)),
                          last_read := Some 0\<rparr>)))"

text \<open>
  The array arithmetic of \<^verbatim>\<open>read_sample\<close>:
  \<^verbatim>\<open>dif = pos - self._old; dif = dif - numpy.rint(dif/L) * L; self._old += dif\<close>,
  with the operations \<open>fl\<close> on the elements. The result is the new value of \<^verbatim>\<open>_old\<close>.
  Each row of \<open>pos\<close> and of \<open>_old\<close> is one particle; \<open>L\<close> is combined with every row.
  Arrays whose shapes differ are not combined: the operation raises.
\<close>

definition same_shape :: "'f list list \<Rightarrow> 'f list list \<Rightarrow> 'f list \<Rightarrow> bool" where
  "same_shape pos od L =
     (length pos = length od \<and> list_all (\<lambda>r. length r = length L) pos \<and>
      list_all (\<lambda>r. length r = length L) od)"

definition unfold_positions ::
  "'f float_ops \<Rightarrow> 'f list list \<Rightarrow> 'f list list \<Rightarrow> 'f list \<Rightarrow> error + 'f list list" where
  "unfold_positions fl pos od L =
     (if \<not> same_shape pos od L then Inl ValueError
      else
        let dif = map2 (map2 (f_sub fl)) pos od;
            dif' = map (\<lambda>row. map2 (f_sub fl) row
                      (map2 (f_mul fl) (map2 (\<lambda>d l. f_rint fl (f_div fl d l)) row L) L)) dif
        in Inr (map2 (map2 (f_add fl)) od dif'))"

text \<open>
  The part of \<^verbatim>\<open>read_sample\<close> after the skipped frames have been read: the frame is read
  from the wrapped class, \<^verbatim>\<open>_last_read\<close> is set, the positions are unfolded and assigned
  to the particles of the frame.
\<close>

definition unfold_sample ::
  "'f float_ops \<Rightarrow> ('b, 'f system) hooks \<Rightarrow> ('f, 'b) unfolded \<Rightarrow> int \<Rightarrow>
   ('f system, ('f, 'b) unfolded) outcome" where
  "unfold_sample fl ih u sample =
     (case read_sample ih (component u) sample of
        (Inl e, b) \<Rightarrow> (Inl e, u\<lparr>component := b\<rparr>)
      | (Inr s, b) \<Rightarrow>
          (let u1 = u\<lparr>component := b, last_read := Some sample\<rparr>;
               L = side (cell s);
               pos = map position (particle s)
           in case old u1 of
                None \<Rightarrow> (Inl AttributeError, u1)
              | Some od \<Rightarrow>
                  (case unfold_positions fl pos od L of
                     Inl e \<Rightarrow> (Inl e, u1)
                   | Inr od' \<Rightarrow>
                       (Inr (s\<lparr>particle := map2 (\<lambda>p x. p\<lparr>position := x\<rparr>) (particle s) od'\<rparr>),
                        u1\<lparr>old := Some od'\<rparr>))))"

text \<open>
  \<^verbatim>\<open>Unfolded.read_sample(self, sample)\<close>, and its loop
  \<^verbatim>\<open>for i in range(delta-1): self.read_sample(self._last_read+1)\<close>, which stops where a
  read raises.
\<close>

function Unfolded_read_sample ::
    "'f float_ops \<Rightarrow> ('b, 'f system) hooks \<Rightarrow> ('f, 'b) unfolded \<Rightarrow> int \<Rightarrow>
     ('f system, ('f, 'b) unfolded) outcome"
  and Unfolded_skip ::
    "'f float_ops \<Rightarrow> ('b, 'f system) hooks \<Rightarrow> ('f, 'b) unfolded \<Rightarrow> nat \<Rightarrow>
     (unit, ('f, 'b) unfolded) outcome" where
  "Unfolded_read_sample fl ih u sample =
     (if sample = 0 then
        (case read_sample ih (component u) sample of (r, b) \<Rightarrow> (r, u\<lparr>component := b\<rparr>))
      else
        case last_read u of
          None \<Rightarrow> (Inl AttributeError, u)
        | Some lr \<Rightarrow>
            (if sample - lr < 0 then (Inl ValueError, u)
             else
               case (if sample - lr > 1 then Unfolded_skip fl ih u (nat (sample - lr - 1))
                     else (Inr (), u)) of
                 (Inl e, u1) \<Rightarrow> (Inl e, u1)
               | (Inr x, u1) \<Rightarrow> unfold_sample fl ih u1 sample))"
| "Unfolded_skip fl ih u 0 = (Inr (), u)"
| "Unfolded_skip fl ih u (Suc n) =
     (case last_read u of
        None \<Rightarrow> (Inl AttributeError, u)
      | Some lr \<Rightarrow>
          (case Unfolded_read_sample fl ih u (lr + 1) of
             (Inl e, u') \<Rightarrow> (Inl e, u')
           | (Inr s, u') \<Rightarrow> Unfolded_skip fl ih u' n))"
  by pat_completeness auto
termination
  by (relation "measure (\<lambda>x. case x of
          Inl (fl, ih, u, sample) \<Rightarrow>
            (case last_read u of
               None \<Rightarrow> 0
             | Some lr \<Rightarrow> if sample - lr > 1 then nat (sample - lr) + 1 else 0)
        | Inr (fl, ih, u, n) \<Rightarrow> n + 1)") auto

text \<open>The class that \<^verbatim>\<open>Unfolded(component)\<close> creates: the methods it overrides.\<close>

definition Unfolded_hooks ::
  "'f float_ops \<Rightarrow> ('b, 'f system) hooks \<Rightarrow> (('f, 'b) unfolded, 'f system) hooks" where
  "Unfolded_hooks fl ih =
     \<lparr> read_init = Unfolded_read_init ih,
       read_sample = Unfolded_read_sample fl ih,
       write_init = (\<lambda>u s. case write_init ih (component u) s of (r, b) \<Rightarrow> (r, u\<lparr>component := b\<rparr>)),
       write_sample =
         (\<lambda>u s step. case write_sample ih (component u) s step of (r, b) \<Rightarrow> (r, u\<lparr>component := b\<rparr>)),
       call = call ih \<rparr>"

section \<open>Example inputs\<close>

text \<open>
  A format plugin that keeps its frames in memory, as pairs of step and frame, and a
  callback that returns the frame as it is.
\<close>

definition memory_hooks :: "((int \<times> 'sys) list, 'sys) hooks" where
  "memory_hooks =
     \<lparr> read_init = (\<lambda>b. (Inr (), b)),
       read_sample = (\<lambda>b index.
          if 0 \<le> index \<and> index < int (length b) then (Inr (snd (b ! nat index)), b)
          else (Inl IndexError, b)),
       write_init = (\<lambda>b system. (Inr (), b)),
       write_sample = (\<lambda>b system step. (Inr (), b @ [(step, system)])),
       call = (\<lambda>cbk s args kwargs. Inr s) \<rparr>"

text \<open>A trajectory object with the given mode, step index and subclass state.\<close>

definition example_trajectory :: "string \<Rightarrow> int list \<Rightarrow> 'b \<Rightarrow> 'b trajectory" where
  "example_trajectory md ss b =
     \<lparr> filename = ''/tmp/testtrj'', mode = md, callbacks = [], fmt = [], precision = 6,
       steps = ss, initialized_write = False, initialized_read = False, backend = b \<rparr>"

text \<open>
  The frame of \<^verbatim>\<open>tests/test_trajectory.py\<close>: two particles in a cell of side 2, the
  first one at \<open>x\<close> along the first axis.
\<close>

definition example_system :: "real \<Rightarrow> real system" where
  "example_system x =
     \<lparr> particle = [\<lparr> position = [x, 0, 0], species = 1, mass = 1 \<rparr>,
                  \<lparr> position = [1, 1, 1], species = 2, mass = 2 \<rparr>],
       cell = \<lparr> side = [2, 2, 2], origin = [0, 0, 0] \<rparr> \<rparr>"




text \<open>
  Arithmetic without rounding, on the reals. On the numbers of the example below, all of
  them multiples of 1/8 between -2 and 2, every difference, sum, product and quotient
  that is formed is a multiple of 1/16 between -4 and 4, which \<^verbatim>\<open>float64\<close> represents:
  there the operations return what the arithmetic of the machine returns.
\<close>

definition exact_ops :: "real float_ops" where
  "exact_ops = \<lparr> f_sub = (-), f_add = (+), f_mul = (*), f_div = (/), f_rint = rint \<rparr>"

text \<open>
  Five frames in which the first particle moves steadily along the first axis, from 0.875
  to 1.125, 1.75, 2.625 and 3.125, stored with its position wrapped into the cell between
  -1 and 1: it leaves the cell between the first two frames and again between the last
  two.
\<close>

definition example_frames :: "(int \<times> real system) list" where
  "example_frames =
     [(0, example_system (7 / 8)), (10, example_system (- 7 / 8)), (20, example_system (- 1 / 4)),
      (30, example_system (5 / 8)), (40, example_system (- 7 / 8))]"

text \<open>An \<^verbatim>\<open>Unfolded\<close> trajectory over these frames, before its first read.\<close>

definition example_unfolded :: "(real, (int \<times> real system) list) unfolded trajectory" where
  "example_unfolded = example_trajectory ''r'' [0, 10, 20, 30, 40] (Unfolded_init example_frames)"

text \<open>
  The state of that object once frame \<open>n\<close> has been read and the first particle has been
  unfolded to \<open>x\<close>.
\<close>

definition example_unfolded_state :: "real \<Rightarrow> int \<Rightarrow> (real, (int \<times> real system) list) unfolded" where
  "example_unfolded_state x n =
     \<lparr> old = Some [[x, 0, 0], [1, 1, 1]], last_read = Some n, component = example_frames \<rparr>"

section \<open>Properties of TrajectoryBase\<close>

subsection \<open>The step index under write\<close>









text \<open>
  Claim C8. A \<^verbatim>\<open>write\<close> that raises leaves \<open>steps\<close> as it was. An error of
  \<^verbatim>\<open>write_sample\<close> is the error of \<^verbatim>\<open>write\<close>, with \<open>steps\<close> untouched, whether
  \<^verbatim>\<open>write_init\<close> had run before or runs in this call; and \<open>steps\<close> changes only in a
  \<^verbatim>\<open>write\<close> that returns.
\<close>

theorem failed_write_keeps_steps:
  "(fst (TrajectoryBase_write h t system step) = Inl e \<longrightarrow>
      steps (snd (TrajectoryBase_write h t system step)) = steps t) \<and>
   (mode t \<noteq> ''r'' \<and> initialized_write t \<and> write_sample h (backend t) system step = (Inl e, b') \<longrightarrow>
      TrajectoryBase_write h t system step = (Inl e, t\<lparr>backend := b'\<rparr>)) \<and>
   (mode t \<noteq> ''r'' \<and> \<not> initialized_write t \<and> write_init h (backend t) system = (Inr (), b0) \<and>
    write_sample h b0 system step = (Inl e, b') \<longrightarrow>
      TrajectoryBase_write h t system step = (Inl e, t\<lparr>backend := b', initialized_write := True\<rparr>)) \<and>
   (steps (snd (TrajectoryBase_write h t system step)) \<noteq> steps t \<longrightarrow>
      fst (TrajectoryBase_write h t system step) = Inr ())"
  by (auto simp: TrajectoryBase_write_def py_in_def Let_def split: prod.splits sum.splits if_splits)

theorem failed_write_keeps_steps_witness:
  "TrajectoryBase_write (base_hooks (\<lambda>cbk s args kwargs. Inr s)) (example_trajectory ''w'' [0] ()) () 5
     = (Inl NotImplementedError, (example_trajectory ''w'' [0] ())\<lparr>initialized_write := True\<rparr>) \<and>
   steps (snd (TrajectoryBase_write (base_hooks (\<lambda>cbk s args kwargs. Inr s)) (example_trajectory ''w'' [0] ()) () 5)) = [0]"
  using failed_write_keeps_steps [of "base_hooks (\<lambda>cbk s args kwargs. Inr s)" "example_trajectory ''w'' [0] ()" "()" 5 NotImplementedError "()" "()"]
  by (simp add: example_trajectory_def base_hooks_def)

subsection \<open>Callbacks\<close>

text \<open>
  Claim C5. On a new trajectory, \<^verbatim>\<open>register_callback\<close> is called twice with the same
  function object and no further arguments. The membership test compares the function
  with the stored entries, which are lists \<^verbatim>\<open>[cbk, args, kwargs]\<close>, so it finds nothing
  and the second call appends a second entry.
\<close>

theorem register_callback_twice:
  "TrajectoryBase_init (\<lambda>p. True) ''/tmp/testtrj'' ''r'' () = Inr (example_trajectory ''r'' [] ()) \<and>
   callbacks (register_callback
                (register_callback (example_trajectory ''r'' [] ()) (PyFunc ''center'') [] fmempty)
                (PyFunc ''center'') [] fmempty)
   = [PyList [PyFunc ''center'', PyTuple [], PyDict fmempty],
      PyList [PyFunc ''center'', PyTuple [], PyDict fmempty]]"
  by (simp add: register_callback_def py_in_def TrajectoryBase_init_def example_trajectory_def)

subsection \<open>Indexed access\<close>

text \<open>
  Claim C7. For an integer key, \<^verbatim>\<open>__getitem__\<close> adds \<open>len\<close> to a negative key and reads
  the frame at the result; it reads the frame at a key from 0 up to \<open>len - 1\<close>; it raises
  \<open>IndexError\<close>, leaving the trajectory as it is, whenever the resolved key is at least
  \<open>len\<close>, in particular at the key \<open>len\<close> itself; and it raises \<open>TypeError\<close> for a key
  that is neither an integer nor a slice.
\<close>

theorem getitem_errors:
  "(k < 0 \<longrightarrow> getitem h t (KeyInt k) = map_prod (map_sum id Frame) id (TrajectoryBase_read h t (k + len t))) \<and>
   (0 \<le> k \<and> k < len t \<longrightarrow> getitem h t (KeyInt k) = map_prod (map_sum id Frame) id (TrajectoryBase_read h t k)) \<and>
   ((if k < 0 then k + len t else k) \<ge> len t \<longrightarrow> getitem h t (KeyInt k) = (Inl IndexError, t)) \<and>
   getitem h t (KeyInt (len t)) = (Inl IndexError, t) \<and>
   getitem h t (KeyOther v) = (Inl TypeError, t)"
  by (simp add: len_def Let_def)

theorem getitem_errors_witness:
  "getitem memory_hooks (example_trajectory ''r'' [0, 10] [(0, ''a''), (10, ''b'')]) (KeyInt (- 1))
     = (Inr (Frame ''b''), (example_trajectory ''r'' [0, 10] [(0, ''a''), (10, ''b'')])\<lparr>initialized_read := True\<rparr>) \<and>
   getitem memory_hooks (example_trajectory ''r'' [0, 10] [(0, ''a''), (10, ''b'')]) (KeyInt 2)
     = (Inl IndexError, example_trajectory ''r'' [0, 10] [(0, ''a''), (10, ''b'')]) \<and>
   getitem memory_hooks (example_trajectory ''r'' [0, 10] [(0, ''a''), (10, ''b'')]) (KeyOther (PyStr ''x''))
     = (Inl TypeError, example_trajectory ''r'' [0, 10] [(0, ''a''), (10, ''b'')])"
  using getitem_errors [of "- 1" memory_hooks "example_trajectory ''r'' [0, 10] [(0, ''a''), (10, ''b'')]" "PyStr ''x''"]
        getitem_errors [of "2" memory_hooks "example_trajectory ''r'' [0, 10] [(0, ''a''), (10, ''b'')]" "PyStr ''x''"]
  by (simp add: len_def example_trajectory_def TrajectoryBase_read_def memory_hooks_def)

text \<open>
  Claim C9. An integer key below \<open>- len\<close> is still negative after \<open>len\<close> has been added;
  \<^verbatim>\<open>__getitem__\<close> raises no \<open>IndexError\<close> of its own and calls \<^verbatim>\<open>read\<close> with that
  negative value. On a trajectory of length 2, the key \<open>-3\<close> reaches \<^verbatim>\<open>read\<close> as \<open>-1\<close>.
\<close>

theorem getitem_below_range:
  "k < - len t \<Longrightarrow>
   k + len t < 0 \<and>
   getitem h t (KeyInt k) = map_prod (map_sum id Frame) id (TrajectoryBase_read h t (k + len t))"
  by (simp add: len_def Let_def)

theorem getitem_below_range_witness:
  "- 3 < - len (example_trajectory ''r'' [0, 10] ()) \<and>
   getitem (base_hooks (\<lambda>cbk s args kwargs. Inr s)) (example_trajectory ''r'' [0, 10] ()) (KeyInt (- 3))
   = map_prod (map_sum id Frame) id
       (TrajectoryBase_read (base_hooks (\<lambda>cbk s args kwargs. Inr s)) (example_trajectory ''r'' [0, 10] ()) (- 1)) \<and>
   getitem (base_hooks (\<lambda>cbk s args kwargs. Inr (s::unit))) (example_trajectory ''r'' [0, 10] ()) (KeyInt (- 3))
   = (Inl NotImplementedError, (example_trajectory ''r'' [0, 10] ())\<lparr>initialized_read := True\<rparr>)"
  using getitem_below_range [of "- 3" "example_trajectory ''r'' [0, 10] ()" "base_hooks (\<lambda>cbk s args kwargs. Inr (s::unit))"]
  by (simp add: len_def example_trajectory_def TrajectoryBase_read_def base_hooks_def)

section \<open>Properties of the Centered decorator\<close>


lemma Centered_done_again:
  "k \<in> set (centered_done c) \<Longrightarrow> Centered_read_sample inner c k = (Inr None, c)"
  by (simp add: Centered_read_sample_def py_in_def)

lemma Centered_done_grows:
  "k \<in> set (centered_done c) \<Longrightarrow> k \<in> set (centered_done (snd (Centered_read_sample inner c j)))"
  by (auto simp: Centered_read_sample_def py_in_def Let_def split: prod.splits sum.splits)

lemma Centered_read_samples_keeps:
  "k \<in> set (centered_done c) \<Longrightarrow> k \<in> set (centered_done (Centered_read_samples inner c ks))"
  by (induction ks arbitrary: c) (auto simp: Centered_done_grows)



text \<open>
  Claim C10. The key is appended to the list of centered keys before the wrapped class is
  asked for the frame. When that read raises, the error is passed on and the key stays
  recorded: after that, and after any further calls, \<^verbatim>\<open>read_sample\<close> with the same key
  returns \<open>None\<close>, without reading.
\<close>

theorem Centered_failed_read_marks_key:
  assumes "k \<notin> set (centered_done c)"
    and "inner (centered_component c) k = (Inl e, b)"
  shows "Centered_read_sample inner c k =
           (Inl e, c\<lparr>centered_done := centered_done c @ [k], centered_component := b\<rparr>) \<and>
         (\<forall>ks. Centered_read_sample inner
                  (Centered_read_samples inner (snd (Centered_read_sample inner c k)) ks) k =
                (Inr None, Centered_read_samples inner (snd (Centered_read_sample inner c k)) ks))"
proof -
  have first: "Centered_read_sample inner c k =
           (Inl e, c\<lparr>centered_done := centered_done c @ [k], centered_component := b\<rparr>)"
    using assms by (simp add: Centered_read_sample_def py_in_def Let_def)
  have "k \<in> set (centered_done (snd (Centered_read_sample inner c k)))"
    by (simp add: first)
  then show ?thesis
    using first Centered_done_again Centered_read_samples_keeps by blast
qed

theorem Centered_failed_read_marks_key_witness:
  "Centered_read_sample (read_sample memory_hooks) (Centered_init [(0, example_system 0)]) 7 =
     (Inl IndexError, \<lparr> centered_done = [7], centered_component = [(0, example_system 0)] \<rparr>) \<and>
   Centered_read_sample (read_sample memory_hooks)
     (snd (Centered_read_sample (read_sample memory_hooks) (Centered_init [(0, example_system 0)]) 7)) 7 =
     (Inr None, \<lparr> centered_done = [7], centered_component = [(0, example_system 0)] \<rparr>)"
  using Centered_failed_read_marks_key [of 7 "Centered_init [(0, example_system 0)]" "read_sample memory_hooks"
          IndexError "[(0, example_system 0)]", THEN conjunct2, THEN spec, of "[]"]
        Centered_failed_read_marks_key [of 7 "Centered_init [(0, example_system 0)]" "read_sample memory_hooks"
          IndexError "[(0, example_system 0)]", THEN conjunct1]
  by (simp add: Centered_init_def memory_hooks_def example_system_def)

section \<open>Properties of SuperTrajectory\<close>















section \<open>Properties of the Unfolded decorator\<close>

subsection \<open>Reading backwards\<close>

lemma unfold_sample_last_read:
  "unfold_sample fl ih u m = (Inr s, u') \<Longrightarrow> last_read u' = Some m"
  by (auto simp: unfold_sample_def Let_def split: prod.splits sum.splits option.splits)

lemma Unfolded_read_sample_last_read:
  assumes "m \<noteq> 0" and "Unfolded_read_sample fl ih u m = (Inr s, u')"
  shows "last_read u' = Some m"
  using assms
  by (auto simp: unfold_sample_last_read split: option.splits if_splits prod.splits sum.splits)

lemma Unfolded_backward:
  "last_read u = Some lr \<Longrightarrow> k \<noteq> 0 \<Longrightarrow> k < lr \<Longrightarrow>
   Unfolded_read_sample fl ih u k = (Inl ValueError, u)"
  by simp

lemma Unfolded_first:
  "Unfolded_read_sample fl ih u 0 =
   map_prod id (\<lambda>b. u\<lparr>component := b\<rparr>) (read_sample ih (component u) 0)"
  by (simp split: prod.splits)

lemma example_read_1:
  "TrajectoryBase_read (Unfolded_hooks exact_ops memory_hooks) example_unfolded 1 =
     (Inr \<lparr> particle = [\<lparr> position = [9 / 8, 0, 0], species = 1, mass = 1 \<rparr>,
                         \<lparr> position = [1, 1, 1], species = 2, mass = 2 \<rparr>],
              cell = \<lparr> side = [2, 2, 2], origin = [0, 0, 0] \<rparr> \<rparr>,
      example_trajectory ''r'' [0, 10, 20, 30, 40]
        \<lparr> old = Some [[9 / 8, 0, 0], [1, 1, 1]], last_read = Some 1, component = example_frames \<rparr>
        \<lparr> initialized_read := True \<rparr>)"
  by (simp add: TrajectoryBase_read_def Unfolded_hooks_def Unfolded_read_init_def memory_hooks_def
        example_unfolded_def example_trajectory_def Unfolded_init_def example_frames_def exact_ops_def
        example_system_def unfold_sample_def unfold_positions_def same_shape_def rint_def Let_def)

text \<open>
  Claim C3, as stated, at frame 0. The trajectory of the five example frames is read at
  frame 1 through \<^verbatim>\<open>read\<close>, which returns the unfolded frame and leaves \<open>_last_read\<close> at 1.
  A call of \<^verbatim>\<open>read_sample(0)\<close> then returns frame 0 of the wrapped class: the test
  \<^verbatim>\<open>sample == 0\<close> comes before the comparison with \<open>_last_read\<close>, and no \<open>ValueError\<close>
  is raised.
\<close>

theorem Unfolded_backward_to_first_frame:
  "fst (TrajectoryBase_read (Unfolded_hooks exact_ops memory_hooks) example_unfolded 1) =
     Inr \<lparr> particle = [\<lparr> position = [9 / 8, 0, 0], species = 1, mass = 1 \<rparr>,
                        \<lparr> position = [1, 1, 1], species = 2, mass = 2 \<rparr>],
             cell = \<lparr> side = [2, 2, 2], origin = [0, 0, 0] \<rparr> \<rparr> \<and>
   last_read (backend (snd (TrajectoryBase_read (Unfolded_hooks exact_ops memory_hooks)
                               example_unfolded 1))) = Some 1 \<and>
   fst (Unfolded_read_sample exact_ops memory_hooks
          (backend (snd (TrajectoryBase_read (Unfolded_hooks exact_ops memory_hooks)
                           example_unfolded 1))) 0) =
     Inr (example_system (7 / 8)) \<and>
   fst (Unfolded_read_sample exact_ops memory_hooks
          (backend (snd (TrajectoryBase_read (Unfolded_hooks exact_ops memory_hooks)
                           example_unfolded 1))) 0) \<noteq>
     Inl ValueError"
  unfolding example_read_1
  by (simp add: example_trajectory_def memory_hooks_def example_frames_def)

text \<open>
  Claim C3, amended. After \<^verbatim>\<open>read_sample(m)\<close> has returned for a frame \<open>m\<close> other than 0,
  \<open>_last_read\<close> is \<open>m\<close>, and \<^verbatim>\<open>read_sample(k)\<close> for any \<open>k\<close> other than 0 below \<open>m\<close>
  raises \<open>ValueError\<close> and leaves the state as it is; the same holds in any state for
  every \<open>k\<close> other than 0 below \<open>_last_read\<close>. A request for frame 0 is handed to the
  wrapped class without the ordering check, and changes neither \<open>_last_read\<close> nor
  \<open>_old\<close>. This holds whatever the arithmetic on the positions is.
\<close>

theorem Unfolded_backward_raises:
  "(m \<noteq> 0 \<and> Unfolded_read_sample fl ih u m = (Inr s, u') \<and> k \<noteq> 0 \<and> k < m \<longrightarrow>
      last_read u' = Some m \<and> Unfolded_read_sample fl ih u' k = (Inl ValueError, u')) \<and>
   (last_read u = Some lr \<and> k \<noteq> 0 \<and> k < lr \<longrightarrow>
      Unfolded_read_sample fl ih u k = (Inl ValueError, u)) \<and>
   Unfolded_read_sample fl ih u 0 =
     map_prod id (\<lambda>b. u\<lparr>component := b\<rparr>) (read_sample ih (component u) 0)"
proof (intro conjI impI)
  assume a: "m \<noteq> 0 \<and> Unfolded_read_sample fl ih u m = (Inr s, u') \<and> k \<noteq> 0 \<and> k < m"
  then show lr: "last_read u' = Some m"
    using Unfolded_read_sample_last_read by blast
  from a lr show "Unfolded_read_sample fl ih u' k = (Inl ValueError, u')"
    using Unfolded_backward by blast
next
  assume "last_read u = Some lr \<and> k \<noteq> 0 \<and> k < lr"
  then show "Unfolded_read_sample fl ih u k = (Inl ValueError, u)"
    using Unfolded_backward by blast
next
  show "Unfolded_read_sample fl ih u 0 =
     map_prod id (\<lambda>b. u\<lparr>component := b\<rparr>) (read_sample ih (component u) 0)"
    by (rule Unfolded_first)
qed

theorem Unfolded_backward_raises_witness:
  "Unfolded_read_sample exact_ops memory_hooks (example_unfolded_state (9 / 8) 1) 2 =
     (Inr (example_system (7 / 4)), example_unfolded_state (7 / 4) 2) \<and>
   Unfolded_read_sample exact_ops memory_hooks (example_unfolded_state (7 / 4) 2) 1 =
     (Inl ValueError, example_unfolded_state (7 / 4) 2)"
  using Unfolded_backward_raises [of 2 exact_ops memory_hooks "example_unfolded_state (9 / 8) 1"
          "example_system (7 / 4)" "example_unfolded_state (7 / 4) 2" 1 2]
  by (simp add: example_unfolded_state_def memory_hooks_def example_frames_def exact_ops_def
        example_system_def unfold_sample_def unfold_positions_def same_shape_def rint_def Let_def)

subsection \<open>The unfolding of one frame\<close>

lemma unfold_positions_shape:
  assumes "same_shape pos od L"
  shows "\<exists>od'. unfold_positions fl pos od L = Inr od' \<and> length od' = length od \<and>
           (\<forall>i<length od. length (od' ! i) = length L \<and>
              (\<forall>j<length L. od' ! i ! j =
                 f_add fl (od ! i ! j)
                   (f_sub fl (f_sub fl (pos ! i ! j) (od ! i ! j))
                      (f_mul fl (f_rint fl (f_div fl (f_sub fl (pos ! i ! j) (od ! i ! j)) (L ! j)))
                         (L ! j)))))"
proof -
  from assms have len: "length pos = length od"
    and rp: "\<And>i. i < length od \<Longrightarrow> length (pos ! i) = length L"
    and ro: "\<And>i. i < length od \<Longrightarrow> length (od ! i) = length L"
    by (simp_all add: same_shape_def list_all_length)
  define od' where "od' = map2 (map2 (f_add fl)) od
     (map (\<lambda>row. map2 (f_sub fl) row
             (map2 (f_mul fl) (map2 (\<lambda>d l. f_rint fl (f_div fl d l)) row L) L))
        (map2 (map2 (f_sub fl)) pos od))"
  have "unfold_positions fl pos od L = Inr od'"
    using assms by (simp add: unfold_positions_def od'_def Let_def)
  moreover have "length od' = length od"
    using len by (simp add: od'_def)
  moreover have "length (od' ! i) = length L \<and>
              (\<forall>j<length L. od' ! i ! j =
                 f_add fl (od ! i ! j)
                   (f_sub fl (f_sub fl (pos ! i ! j) (od ! i ! j))
                      (f_mul fl (f_rint fl (f_div fl (f_sub fl (pos ! i ! j) (od ! i ! j)) (L ! j)))
                         (L ! j))))"
    if "i < length od" for i
    using that len rp [OF that] ro [OF that] by (simp add: od'_def)
  ultimately show ?thesis by blast
qed

lemma assign_positions:
  assumes "length ps = length xs"
  shows "map position (map2 (\<lambda>p x. p\<lparr>position := x\<rparr>) ps xs) = xs"
  using assms by (induction ps xs rule: list_induct2) simp_all

lemma Unfolded_next:
  "sample \<noteq> 0 \<Longrightarrow> last_read u = Some (sample - 1) \<Longrightarrow>
   Unfolded_read_sample fl ih u sample = unfold_sample fl ih u sample"
  by simp

text \<open>
  Claim C4, as stated, at a second crossing. The first four example frames are read in
  order through \<^verbatim>\<open>read\<close>, which leaves the first particle unfolded to 2.625, then
  frame 4. Between frames 3 and 4 the first particle leaves
  the cell again (its stored position goes from 0.625 to -0.875, in a cell of side 2); the
  position returned for frame 4 is 3.125, which is two cell sides away from the stored
  one, not one. All numbers formed on the way are multiples of 1/16 between -4 and 4,
  so that no operation rounds.
\<close>

theorem Unfolded_second_crossing:
  "backend (snd (read_all (Unfolded_hooks exact_ops memory_hooks) example_unfolded [0, 1, 2, 3])) =
     example_unfolded_state (21 / 8) 3 \<and>
   fst (TrajectoryBase_read (Unfolded_hooks exact_ops memory_hooks)
          (snd (read_all (Unfolded_hooks exact_ops memory_hooks) example_unfolded [0, 1, 2, 3])) 4) =
     Inr (example_system (25 / 8)) \<and>
   position (particle (snd (example_frames ! 3)) ! 0) ! 0 = 5 / 8 \<and>
   position (particle (snd (example_frames ! 4)) ! 0) ! 0 = - 7 / 8 \<and>
   side (cell (snd (example_frames ! 4))) ! 0 = 2 \<and>
   \<bar>position (particle (example_system (25 / 8)) ! 0) ! 0 -
     position (particle (snd (example_frames ! 4)) ! 0) ! 0\<bar> = 4"
  by (simp add: TrajectoryBase_read_def Unfolded_hooks_def Unfolded_read_init_def memory_hooks_def
        example_unfolded_def example_trajectory_def Unfolded_init_def example_frames_def exact_ops_def
        example_unfolded_state_def
        example_system_def unfold_sample_def unfold_positions_def same_shape_def rint_def Let_def)

text \<open>
  Claim C4, amended. When the frame after the last one read is requested, and the wrapped
  class returns a frame of the shape of \<open>_old\<close>, every component of every returned
  position is computed, with the operations of the machine, as the previous unfolded
  value \<open>o\<close> plus the reduced difference: \<open>d\<close> is the stored value minus \<open>o\<close>, and
  \<open>rint (d / L) * L\<close> is subtracted from it, with \<open>L\<close> the cell side of the frame just
  read. The returned positions are the new \<open>_old\<close>, the cell is that of the frame read,
  and \<open>_last_read\<close> is the frame requested. Nothing is said of the distance between the
  returned and the stored position.
\<close>

theorem Unfolded_sequential_read:
  assumes "sample \<noteq> 0"
    and "last_read u = Some (sample - 1)"
    and "old u = Some od"
    and "read_sample ih (component u) sample = (Inr s, b)"
    and "same_shape (map position (particle s)) od (side (cell s))"
  shows "\<exists>s'. Unfolded_read_sample fl ih u sample =
              (Inr s', u\<lparr>component := b, last_read := Some sample,
                         old := Some (map position (particle s'))\<rparr>) \<and>
            cell s' = cell s \<and> length (particle s') = length (particle s) \<and>
            (\<forall>i<length (particle s). \<forall>j<length (side (cell s)).
               position (particle s' ! i) ! j =
                 f_add fl (od ! i ! j)
                   (f_sub fl (f_sub fl (position (particle s ! i) ! j) (od ! i ! j))
                      (f_mul fl
                         (f_rint fl (f_div fl (f_sub fl (position (particle s ! i) ! j) (od ! i ! j))
                                       (side (cell s) ! j)))
                         (side (cell s) ! j))))"
proof -
  let ?pos = "map position (particle s)"
  let ?L = "side (cell s)"
  from unfold_positions_shape [OF assms(5), of fl] obtain od' where
    up: "unfold_positions fl ?pos od ?L = Inr od'"
    and len': "length od' = length od"
    and comp: "\<And>i j. i < length od \<Longrightarrow> j < length ?L \<Longrightarrow>
       od' ! i ! j = f_add fl (od ! i ! j)
                   (f_sub fl (f_sub fl (?pos ! i ! j) (od ! i ! j))
                      (f_mul fl (f_rint fl (f_div fl (f_sub fl (?pos ! i ! j) (od ! i ! j)) (?L ! j)))
                         (?L ! j)))"
    by blast
  from assms(5) have len: "length (particle s) = length od"
    by (simp add: same_shape_def)
  define s' where "s' = s\<lparr>particle := map2 (\<lambda>p x. p\<lparr>position := x\<rparr>) (particle s) od'\<rparr>"
  have ps: "particle s' = map2 (\<lambda>p x. p\<lparr>position := x\<rparr>) (particle s) od'"
    unfolding s'_def by simp
  have pos': "map position (particle s') = od'"
    unfolding ps by (rule assign_positions) (simp add: len len')
  have run: "Unfolded_read_sample fl ih u sample =
      (Inr s', u\<lparr>component := b, last_read := Some sample, old := Some (map position (particle s'))\<rparr>)"
    unfolding Unfolded_next [OF assms(1,2)] pos'
    using assms(3,4) up by (simp add: unfold_sample_def Let_def s'_def)
  have cell: "cell s' = cell s" by (simp add: s'_def)
  have lenp: "length (particle s') = length (particle s)"
    using len len' by (simp add: s'_def)
  have formula: "position (particle s' ! i) ! j =
                 f_add fl (od ! i ! j)
                   (f_sub fl (f_sub fl (position (particle s ! i) ! j) (od ! i ! j))
                      (f_mul fl
                         (f_rint fl (f_div fl (f_sub fl (position (particle s ! i) ! j) (od ! i ! j))
                                       (?L ! j)))
                         (?L ! j)))"
    if "i < length (particle s)" "j < length ?L" for i j
  proof -
    have "position (particle s' ! i) = od' ! i"
      using that(1) lenp pos' by (metis nth_map)
    moreover have "?pos ! i = position (particle s ! i)"
      using that(1) by simp
    ultimately show ?thesis
      using comp [of i j] that len by simp
  qed
  show ?thesis
    using run cell lenp formula by (intro exI [of _ s']) blast
qed

theorem Unfolded_sequential_read_witness:
  "Unfolded_read_sample exact_ops memory_hooks (example_unfolded_state (7 / 8) 0) 1 =
     (Inr (example_system (9 / 8)), example_unfolded_state (9 / 8) 1) \<and>
   position (particle (example_system (9 / 8)) ! 0) ! 0 =
     7 / 8 + ((- 7 / 8 - 7 / 8) - rint ((- 7 / 8 - 7 / 8) / 2) * 2)"
  using Unfolded_sequential_read [of 1 "example_unfolded_state (7 / 8) 0" "[[7 / 8, 0, 0], [1, 1, 1]]"
          memory_hooks "example_system (- 7 / 8)" example_frames exact_ops]
  by (simp add: example_unfolded_state_def memory_hooks_def example_frames_def exact_ops_def
        example_system_def same_shape_def unfold_sample_def unfold_positions_def rint_def Let_def)

end
